theory Spec2Isabelle
  imports Main
begin

section \<open>Data model\<close>

text \<open>
  \<^verbatim>\<open>app/models/user.py\<close> and \<^verbatim>\<open>app/schemas/user.py\<close>: the role enum, the fields shared by
  \<^verbatim>\<open>UserBase\<close>/\<^verbatim>\<open>UserCreate\<close>, and the stored row (\<^verbatim>\<open>UserResponse\<close> extends \<^verbatim>\<open>UserBase\<close> by
  \<^verbatim>\<open>id\<close>, \<^verbatim>\<open>created_at\<close> and \<^verbatim>\<open>updated_at\<close>, the columns of the \<^verbatim>\<open>users\<close> table). The column
  \<^verbatim>\<open>id\<close> is called \<open>id_pk\<close> here, \<open>id\<close> being the identity function of HOL. Timestamps are
  integers: readings of the store's clock (\<^verbatim>\<open>func.now()\<close>).
\<close>

datatype UserRole = ADMIN | USER | GUEST

fun role_value :: "UserRole \<Rightarrow> string" where
  "role_value ADMIN = ''admin''"
| "role_value USER = ''user''"
| "role_value GUEST = ''guest''"

record UserBase =
  username :: string
  email :: string
  first_name :: string
  last_name :: string
  role :: UserRole
  active :: bool

type_synonym UserCreate = UserBase

record User = UserBase +
  id_pk :: int
  created_at :: int
  updated_at :: int

text \<open>
  \<^verbatim>\<open>UserUpdate\<close>: every field is \<^verbatim>\<open>Optional\<close> with default \<^verbatim>\<open>None\<close>, and pydantic records which
  fields the request carried. \<^verbatim>\<open>model_dump(exclude_unset=True)\<close> has a key exactly for the
  fields that were supplied, also when the supplied value is \<^verbatim>\<open>null\<close>: \<open>Omitted\<close> is a key
  that is absent, \<open>Supplied None\<close> an explicit \<^verbatim>\<open>null\<close>, \<open>Supplied (Some v)\<close> a value.
\<close>

datatype 'a field_upd = Omitted | Supplied "'a option"

record UserUpdate =
  username_upd :: "string field_upd"
  email_upd :: "string field_upd"
  first_name_upd :: "string field_upd"
  last_name_upd :: "string field_upd"
  role_upd :: "UserRole field_upd"
  active_upd :: "bool field_upd"

record UserListResponse =
  total_users :: int
  users :: "User list"
  skip :: int
  limit :: int

section \<open>Errors\<close>

text \<open>
  \<^verbatim>\<open>app/core/exceptions.py\<close>. Both exceptions are \<^verbatim>\<open>HTTPException\<close>s built from a status code
  and a formatted detail. \<open>OverflowError\<close> is what the driver raises when a query binds an
  integer outside the signed 64-bit range of the store; no handler catches it where it
  looks a row up by id. \<open>str_int\<close> is Python's decimal \<^verbatim>\<open>str\<close> of an integer, \<open>fmt_str\<close> the
  f-string rendering of a value that is a string or \<^verbatim>\<open>None\<close>.
\<close>

datatype handler_error = HTTPException (status_code: nat) (detail: string) | OverflowError

datatype db_error = IntegrityError

datatype request_error = RequestValidationError | Unhandled handler_error

definition digit_char :: "nat \<Rightarrow> char" where
  "digit_char d = ''0123456789'' ! d"

fun str_nat :: "nat \<Rightarrow> string" where
  "str_nat n = (if n < 10 then [digit_char n] else str_nat (n div 10) @ [digit_char (n mod 10)])"

declare str_nat.simps [simp del]

definition str_int :: "int \<Rightarrow> string" where
  "str_int i = (if i < 0 then CHR ''-'' # str_nat (nat (- i)) else str_nat (nat i))"

fun fmt_str :: "string option \<Rightarrow> string" where
  "fmt_str None = ''None''"
| "fmt_str (Some s) = s"

fun truthy_int :: "int option \<Rightarrow> bool" where
  "truthy_int None = False"
| "truthy_int (Some i) = (i \<noteq> 0)"

fun fmt_int :: "int option \<Rightarrow> string" where
  "fmt_int None = ''None''"
| "fmt_int (Some i) = str_int i"

definition UserNotFoundException :: "int option \<Rightarrow> string option \<Rightarrow> handler_error" where
  "UserNotFoundException user_id uname =
     (let identifier = (if truthy_int user_id then ''id='' @ fmt_int user_id
                        else ''username='' @ fmt_str uname)
      in HTTPException 404 (''User with '' @ identifier @ '' not found''))"

definition UserAlreadyExistsException :: "string \<Rightarrow> string option \<Rightarrow> handler_error" where
  "UserAlreadyExistsException fld val =
     HTTPException 409
       (''User with '' @ fld @ ''='' @ [CHR 0x27] @ fmt_str val @ [CHR 0x27] @ '' already exists'')"

section \<open>The record store\<close>

text \<open>
  The table is the list of its rows in the order a scan returns them; no query of the
  handlers has an \<^verbatim>\<open>ORDER BY\<close>, and which order a scan has is the store's affair. The
  commits below place the rows as the configured default store does
  (\<^verbatim>\<open>sqlite:///./user_management.db\<close>, an integer primary key): a new row gets the largest id
  plus one and comes last, an updated row stays where it is. What is stated about the
  order of a page is stated for every order of the list.
  \<^verbatim>\<open>query.filter(c).first()\<close> is \<open>find\<close>, \<^verbatim>\<open>count()\<close> is \<open>length\<close>, \<^verbatim>\<open>offset(s).limit(l).all()\<close>
  is \<open>take l (drop s rows)\<close>. A commit raises \<^verbatim>\<open>IntegrityError\<close> when a \<^verbatim>\<open>unique\<close> or
  \<^verbatim>\<open>nullable=False\<close> constraint of the table fails, and then leaves the table as it was.
  One session runs at a time; faults of the driver other than the ones named here are
  outside the model.

  \<open>first_by_id\<close> is \<^verbatim>\<open>db.query(User).filter(User.id == user_id).first()\<close>. The \<^verbatim>\<open>id\<close> column holds
  signed 64-bit integers, so an id outside that range is the id of no row, and the driver
  raises \<^verbatim>\<open>OverflowError\<close> when it is to bind one.
\<close>

definition in_int64 :: "int \<Rightarrow> bool" where
  "in_int64 i = (- 9223372036854775808 \<le> i \<and> i \<le> 9223372036854775807)"

definition first_by_id :: "int \<Rightarrow> User list \<Rightarrow> handler_error + User option" where
  "first_by_id user_id rows =
     (case find (\<lambda>w. id_pk w = user_id) rows of
        Some user \<Rightarrow> Inr (Some user)
      | None \<Rightarrow> if in_int64 user_id then Inr None else Inl OverflowError)"

definition next_id :: "User list \<Rightarrow> int" where
  "next_id rows = foldr max (map id_pk rows) 0 + 1"

definition commit_insert :: "int \<Rightarrow> UserCreate \<Rightarrow> User list \<Rightarrow> db_error + (User \<times> User list)" where
  "commit_insert now user rows =
     (if list_ex (\<lambda>w. username w = username user \<or> email w = email user) rows
      then Inl IntegrityError
      else (let db_user = \<lparr>username = username user, email = email user,
                            first_name = first_name user, last_name = last_name user,
                            role = role user, active = active user,
                            id_pk = next_id rows, created_at = now, updated_at = now\<rparr>
            in Inr (db_user, rows @ [db_user])))"

text \<open>
  \<^verbatim>\<open>setattr(db_user, field, value)\<close> for the keys of \<^verbatim>\<open>update_data\<close>: the attribute after the
  loop, \<open>None\<close> when the request set it to \<^verbatim>\<open>null\<close>.
\<close>

definition setattr :: "'a field_upd \<Rightarrow> 'a \<Rightarrow> 'a option" where
  "setattr f old = (case f of Omitted \<Rightarrow> Some old | Supplied v \<Rightarrow> v)"

definition apply_update :: "UserUpdate \<Rightarrow> User \<Rightarrow> User option" where
  "apply_update upd db_user =
     Option.bind (setattr (username_upd upd) (username db_user)) (\<lambda>un.
     Option.bind (setattr (email_upd upd) (email db_user)) (\<lambda>em.
     Option.bind (setattr (first_name_upd upd) (first_name db_user)) (\<lambda>fn.
     Option.bind (setattr (last_name_upd upd) (last_name db_user)) (\<lambda>ln.
     Option.bind (setattr (role_upd upd) (role db_user)) (\<lambda>r.
     Option.bind (setattr (active_upd upd) (active db_user)) (\<lambda>a.
       Some (db_user\<lparr>username := un, email := em, first_name := fn, last_name := ln,
                      role := r, active := a\<rparr>)))))))"

text \<open>
  The commit of an update. An attribute that is \<^verbatim>\<open>None\<close> violates \<^verbatim>\<open>nullable=False\<close>. The
  session flushes an \<^verbatim>\<open>UPDATE\<close> only for a row with an attribute whose value differs from the
  loaded one, and \<^verbatim>\<open>onupdate=func.now()\<close> on \<^verbatim>\<open>updated_at\<close> takes effect in that \<^verbatim>\<open>UPDATE\<close>:
  without a net change the row, its \<^verbatim>\<open>updated_at\<close> included, is left as it is.
\<close>

definition commit_update :: "int \<Rightarrow> User \<Rightarrow> UserUpdate \<Rightarrow> User list \<Rightarrow> db_error + (User \<times> User list)" where
  "commit_update now db_user upd rows =
     (case apply_update upd db_user of
        None \<Rightarrow> Inl IntegrityError
      | Some changed \<Rightarrow>
          if changed = db_user then Inr (db_user, rows)
          else if list_ex (\<lambda>w. id_pk w \<noteq> id_pk db_user \<and>
                              (username w = username changed \<or> email w = email changed)) rows
          then Inl IntegrityError
          else (let refreshed = changed\<lparr>updated_at := now\<rparr>
                in Inr (refreshed, map (\<lambda>w. if id_pk w = id_pk db_user then refreshed else w) rows)))"

section \<open>Request handlers\<close>

text \<open>
  \<^verbatim>\<open>app/api/users.py\<close>. Every handler takes the table and returns its result with the table
  after the request; \<open>now\<close> is the reading of the store's clock during the request.
\<close>

definition create_user :: "int \<Rightarrow> UserCreate \<Rightarrow> User list \<Rightarrow> (handler_error + User) \<times> User list" where
  "create_user now user rows =
     (case find (\<lambda>w. username w = username user) rows of
        Some existing_user \<Rightarrow> (Inl (UserAlreadyExistsException ''username'' (Some (username user))), rows)
      | None \<Rightarrow>
     (case find (\<lambda>w. email w = email user) rows of
        Some existing_user \<Rightarrow> (Inl (UserAlreadyExistsException ''email'' (Some (email user))), rows)
      | None \<Rightarrow>
     (case commit_insert now user rows of
        Inr (db_user, rows') \<Rightarrow> (Inr db_user, rows')
      | Inl IntegrityError \<Rightarrow>
          (Inl (HTTPException 409 ''User creation failed due to data constraint violation''), rows))))"

definition get_user :: "int \<Rightarrow> User list \<Rightarrow> handler_error + User" where
  "get_user user_id rows =
     (case first_by_id user_id rows of
        Inl e \<Rightarrow> Inl e
      | Inr None \<Rightarrow> Inl (UserNotFoundException (Some user_id) None)
      | Inr (Some user) \<Rightarrow> Inr user)"

text \<open>
  The pre-check of \<^verbatim>\<open>update_user\<close>, written once in the source for \<^verbatim>\<open>username\<close> (lines 118-121)
  and once for \<^verbatim>\<open>email\<close> (lines 123-126): the key is in \<^verbatim>\<open>update_data\<close>, its value differs from
  the loaded row's, and some row holds the value. A comparison of a column with \<^verbatim>\<open>None\<close>
  selects no row of a \<^verbatim>\<open>nullable=False\<close> column.
\<close>

fun precheck :: "string \<Rightarrow> (User \<Rightarrow> string) \<Rightarrow> string field_upd \<Rightarrow> User \<Rightarrow> User list \<Rightarrow> handler_error option" where
  "precheck fld col Omitted db_user rows = None"
| "precheck fld col (Supplied v) db_user rows =
     (if v \<noteq> Some (col db_user)
      then (case find (\<lambda>w. Some (col w) = v) rows of
              None \<Rightarrow> None
            | Some existing \<Rightarrow> Some (UserAlreadyExistsException fld v))
      else None)"

definition update_user :: "int \<Rightarrow> int \<Rightarrow> UserUpdate \<Rightarrow> User list \<Rightarrow> (handler_error + User) \<times> User list" where
  "update_user now user_id user_update rows =
     (case first_by_id user_id rows of
        Inl e \<Rightarrow> (Inl e, rows)
      | Inr None \<Rightarrow> (Inl (UserNotFoundException (Some user_id) None), rows)
      | Inr (Some db_user) \<Rightarrow>
     (case precheck ''username'' username (username_upd user_update) db_user rows of
        Some e \<Rightarrow> (Inl e, rows)
      | None \<Rightarrow>
     (case precheck ''email'' email (email_upd user_update) db_user rows of
        Some e \<Rightarrow> (Inl e, rows)
      | None \<Rightarrow>
     (case commit_update now db_user user_update rows of
        Inr (db_user', rows') \<Rightarrow> (Inr db_user', rows')
      | Inl IntegrityError \<Rightarrow>
          (Inl (HTTPException 409 ''User update failed due to data constraint violation''), rows)))))"

definition delete_user :: "int \<Rightarrow> User list \<Rightarrow> (handler_error + unit) \<times> User list" where
  "delete_user user_id rows =
     (case first_by_id user_id rows of
        Inl e \<Rightarrow> (Inl e, rows)
      | Inr None \<Rightarrow> (Inl (UserNotFoundException (Some user_id) None), rows)
      | Inr (Some db_user) \<Rightarrow> (Inr (), filter (\<lambda>w. id_pk w \<noteq> id_pk db_user) rows))"

text \<open>
  The column \<^verbatim>\<open>role = Column(Enum(UserRole))\<close> stores the name of the member. When a query
  compares the column with a string, the column's type binds the string: a string that is
  a member (the members are strings, equal to their values) or the name of a member is bound
  as that member's name, any other string as it is.
\<close>

fun role_name :: "UserRole \<Rightarrow> string" where
  "role_name ADMIN = ''ADMIN''"
| "role_name USER = ''USER''"
| "role_name GUEST = ''GUEST''"

definition db_value_for_elem :: "string \<Rightarrow> string" where
  "db_value_for_elem elem =
     (case find (\<lambda>m. role_value m = elem \<or> role_name m = elem) [ADMIN, USER, GUEST] of
        Some m \<Rightarrow> role_name m
      | None \<Rightarrow> elem)"

text \<open>
  \<^verbatim>\<open>get_users\<close>: the two filters are applied one after the other, \<^verbatim>\<open>active\<close> when it is not
  \<^verbatim>\<open>None\<close>, \<^verbatim>\<open>role\<close> when it is truthy (neither \<^verbatim>\<open>None\<close> nor the empty string). The page is
  \<^verbatim>\<open>offset(skip).limit(limit)\<close> of the rows left; a negative limit is no limit. The query
  of the page binds \<^verbatim>\<open>skip\<close> and \<^verbatim>\<open>limit\<close>, and the driver raises \<^verbatim>\<open>OverflowError\<close> for one
  outside the signed 64-bit range.
\<close>

definition get_users :: "int \<Rightarrow> int \<Rightarrow> bool option \<Rightarrow> string option \<Rightarrow> User list \<Rightarrow> handler_error + UserListResponse" where
  "get_users skip_q limit_q active_q role_q rows =
     (let query0 = rows;
          query1 = (case active_q of None \<Rightarrow> query0
                    | Some a \<Rightarrow> filter (\<lambda>u. active u = a) query0);
          query2 = (case role_q of None \<Rightarrow> query1
                    | Some r \<Rightarrow> if r = [] then query1
                                else filter (\<lambda>u. role_name (role u) = db_value_for_elem r) query1);
          rest = drop (nat skip_q) query2
      in if \<not> in_int64 skip_q \<or> \<not> in_int64 limit_q then Inl OverflowError
         else Inr \<lparr>total_users = int (length query2),
                   users = (if limit_q < 0 then rest else take (nat limit_q) rest),
                   skip = skip_q, limit = limit_q\<rparr>)"

text \<open>
  The route with its declared query parameters: \<^verbatim>\<open>skip = Query(0, ge=0)\<close>,
  \<^verbatim>\<open>limit = Query(100, ge=1, le=1000)\<close>, \<^verbatim>\<open>active = Query(None)\<close>, \<^verbatim>\<open>role: str = Query(None)\<close>.
  A parameter that is absent takes its default; a bound that fails is a
  \<^verbatim>\<open>RequestValidationError\<close> (status 422) and the handler does not run. An exception that
  the handler raises is not caught (status 500).
\<close>

definition get_users_route :: "int option \<Rightarrow> int option \<Rightarrow> bool option \<Rightarrow> string option \<Rightarrow> User list \<Rightarrow> request_error + UserListResponse" where
  "get_users_route skip_p limit_p active_p role_p rows =
     (let skip_q = (case skip_p of None \<Rightarrow> 0 | Some s \<Rightarrow> s);
          limit_q = (case limit_p of None \<Rightarrow> 100 | Some l \<Rightarrow> l)
      in if skip_q < 0 then Inl RequestValidationError
         else if limit_q < 1 \<or> 1000 < limit_q then Inl RequestValidationError
         else (case get_users skip_q limit_q active_p role_p rows of
                 Inl e \<Rightarrow> Inl (Unhandled e)
               | Inr response \<Rightarrow> Inr response))"

text \<open>
  The filter of a list request as the specification words it: the conjunction of the
  filter on \<^verbatim>\<open>active\<close> and the filter on \<^verbatim>\<open>role\<close>, each only when it is in effect. A row
  matches a role when the role is the value or the name of the row's member.
\<close>

definition matches_filters :: "bool option \<Rightarrow> string option \<Rightarrow> User \<Rightarrow> bool" where
  "matches_filters active_q role_q u =
     ((case active_q of None \<Rightarrow> True | Some a \<Rightarrow> active u = a) \<and>
      (case role_q of None \<Rightarrow> True
       | Some r \<Rightarrow> r = [] \<or> role_value (role u) = r \<or> role_name (role u) = r))"

section \<open>Username validation\<close>

text \<open>
  \<^verbatim>\<open>app/schemas/user.py\<close>. A \<open>char\<close> stands for a code point below 256, and \<open>isalnum_char\<close> is
  Python's \<^verbatim>\<open>str.isalnum\<close> on one such character: the ASCII letters and digits, and in the
  upper half the letters (U+00AA, U+00B5, U+00BA, U+00C0 to U+00FF without the two signs
  U+00D7 and U+00F7) and the numeric characters (U+00B2, U+00B3, U+00B9, U+00BC to U+00BE).
  \<^verbatim>\<open>s.isalnum()\<close> is false on the empty string.
\<close>

definition isalnum_char :: "char \<Rightarrow> bool" where
  "isalnum_char c =
     (let n = (of_char c :: nat)
      in (48 \<le> n \<and> n \<le> 57) \<or> (65 \<le> n \<and> n \<le> 90) \<or> (97 \<le> n \<and> n \<le> 122)
         \<or> n = 170 \<or> n = 178 \<or> n = 179 \<or> n = 181 \<or> n = 185 \<or> n = 186
         \<or> (188 \<le> n \<and> n \<le> 190) \<or> (192 \<le> n \<and> n \<le> 214)
         \<or> (216 \<le> n \<and> n \<le> 246) \<or> (248 \<le> n \<and> n \<le> 255))"

definition isalnum :: "string \<Rightarrow> bool" where
  "isalnum s = (s \<noteq> [] \<and> list_all isalnum_char s)"

definition replace_underscore :: "string \<Rightarrow> string" where
  "replace_underscore v = filter (\<lambda>c. c \<noteq> CHR ''_'') v"

datatype value_error = StringTooShort | StringTooLong | ValueError string

definition username_alphanumeric :: "string \<Rightarrow> value_error + string" where
  "username_alphanumeric v =
     (if \<not> isalnum (replace_underscore v)
      then Inl (ValueError ''Username must contain only alphanumeric characters and underscores'')
      else Inr v)"

text \<open>
  The field as \<^verbatim>\<open>UserBase\<close> declares it: \<^verbatim>\<open>Field(..., min_length=3, max_length=50)\<close>, then the
  validator. In \<^verbatim>\<open>UserUpdate\<close> the field is optional and the validator lets \<^verbatim>\<open>None\<close> pass.
  Each failure is a validation error of the request (status 422), raised before the handler
  runs; \<open>StringTooShort\<close> and \<open>StringTooLong\<close> are the failures of the two length bounds.
\<close>

definition validate_username :: "string \<Rightarrow> value_error + string" where
  "validate_username v =
     (if length v < 3 then Inl StringTooShort
      else if 50 < length v then Inl StringTooLong
      else username_alphanumeric v)"



text \<open>
  The routes \<^verbatim>\<open>POST /users\<close> and \<^verbatim>\<open>PUT /users/{user_id}\<close>: the framework validates the body
  against \<^verbatim>\<open>UserCreate\<close> or \<^verbatim>\<open>UserUpdate\<close> and calls the handler only with a valid one. Of
  the body's validation the routes below have the username's: \<open>sent\<close> is the username as the
  request has it, and the other fields are given as their own validation returns them.

  A failure is a \<^verbatim>\<open>RequestValidationError\<close>, which \<^verbatim>\<open>validation_exception_handler\<close> of
  \<^verbatim>\<open>app/main.py\<close> answers with a \<^verbatim>\<open>JSONResponse\<close> of status 422 whose content holds
  \<^verbatim>\<open>exc.errors()\<close>. For a failure of a length bound that is the answer. For a \<^verbatim>\<open>ValueError\<close>
  raised by a validator the errors hold the exception object, the response cannot be
  rendered, and the answer is the one of \<^verbatim>\<open>general_exception_handler\<close>, status 500; so it is
  for an exception that a handler does not catch.
\<close>

datatype route_error = Validation value_error | Handler handler_error

fun status_of :: "route_error \<Rightarrow> nat" where
  "status_of (Validation StringTooShort) = 422"
| "status_of (Validation StringTooLong) = 422"
| "status_of (Validation (ValueError msg)) = 500"
| "status_of (Handler (HTTPException code msg)) = code"
| "status_of (Handler OverflowError) = 500"

definition create_user_route :: "int \<Rightarrow> string \<Rightarrow> UserCreate \<Rightarrow> User list \<Rightarrow> (route_error + User) \<times> User list" where
  "create_user_route now sent body rows =
     (case validate_username sent of
        Inl e \<Rightarrow> (Inl (Validation e), rows)
      | Inr v \<Rightarrow>
          (case create_user now (body\<lparr>username := v\<rparr>) rows of
             (Inl h, rows') \<Rightarrow> (Inl (Handler h), rows')
           | (Inr db_user, rows') \<Rightarrow> (Inr db_user, rows')))"


text \<open>
  The language of the specification's regular expression \<^verbatim>\<open>^[A-Za-z0-9_]{3,50}$\<close>, written
  from the specification: three to fifty characters, each an ASCII letter, an ASCII digit
  or an underscore.
\<close>

definition regex_class :: "char \<Rightarrow> bool" where
  "regex_class c =
     (let n = (of_char c :: nat)
      in (65 \<le> n \<and> n \<le> 90) \<or> (97 \<le> n \<and> n \<le> 122) \<or> (48 \<le> n \<and> n \<le> 57) \<or> c = CHR ''_'')"

definition matches_username_regex :: "string \<Rightarrow> bool" where
  "matches_username_regex v = (3 \<le> length v \<and> length v \<le> 50 \<and> list_all regex_class v)"

section \<open>Conditions on an update request\<close>

text \<open>
  \<open>keeps_unique col f u rows\<close>: the request leaves the unique column \<open>col\<close> of the row \<open>u\<close>
  alone, or sets it to the value the row has, or to a value no row has. \<open>columns\<close> are the
  columns of a row that a request can set.
\<close>

definition keeps_unique :: "(User \<Rightarrow> string) \<Rightarrow> string field_upd \<Rightarrow> User \<Rightarrow> User list \<Rightarrow> bool" where
  "keeps_unique col f u rows =
     (case f of
        Omitted \<Rightarrow> True
      | Supplied None \<Rightarrow> False
      | Supplied (Some v) \<Rightarrow> v = col u \<or> \<not> list_ex (\<lambda>w. col w = v) rows)"

definition columns :: "User \<Rightarrow> string \<times> string \<times> string \<times> string \<times> UserRole \<times> bool" where
  "columns u = (username u, email u, first_name u, last_name u, role u, active u)"

section \<open>Invariants of the table\<close>

text \<open>
  The constraints the table declares: the primary key and the two \<^verbatim>\<open>unique=True\<close> columns.
  \<open>reachable\<close> are the tables the handlers can produce from the empty one.
\<close>

definition db_ok :: "User list \<Rightarrow> bool" where
  "db_ok rows = (distinct (map id_pk rows) \<and> distinct (map username rows) \<and> distinct (map email rows))"

inductive reachable :: "User list \<Rightarrow> bool" where
  reach_init: "reachable []"
| reach_create: "reachable rows \<Longrightarrow> reachable (snd (create_user now user rows))"
| reach_update: "reachable rows \<Longrightarrow> reachable (snd (update_user now user_id upd rows))"
| reach_delete: "reachable rows \<Longrightarrow> reachable (snd (delete_user user_id rows))"

section \<open>Sample rows\<close>

text \<open>The two users of \<^verbatim>\<open>tests/conftest.py\<close>, as rows created one after the other.\<close>

definition sample_user_data :: UserCreate where
  "sample_user_data = \<lparr>username = ''john_doe'', email = ''john.doe@example.com'',
       first_name = ''John'', last_name = ''Doe'', role = USER, active = True\<rparr>"

definition john :: User where
  "john = \<lparr>username = ''john_doe'', email = ''john.doe@example.com'', first_name = ''John'',
            last_name = ''Doe'', role = USER, active = True,
            id_pk = 1, created_at = 10, updated_at = 10\<rparr>"

definition jane :: User where
  "jane = \<lparr>username = ''jane_smith'', email = ''jane.smith@example.com'', first_name = ''Jane'',
            last_name = ''Smith'', role = ADMIN, active = True,
            id_pk = 2, created_at = 11, updated_at = 11\<rparr>"

definition no_fields :: UserUpdate where
  "no_fields = \<lparr>username_upd = Omitted, email_upd = Omitted, first_name_upd = Omitted,
                 last_name_upd = Omitted, role_upd = Omitted, active_upd = Omitted\<rparr>"


section \<open>Queries\<close>

lemma find_None_set: "(find P xs = None) = (\<not> (\<exists>x\<in>set xs. P x))"
  by (auto simp: find_None_iff)

lemma find_Some_ex: "\<exists>x\<in>set xs. P x \<Longrightarrow> \<exists>y. find P xs = Some y \<and> P y \<and> y \<in> set xs"
  by (induction xs) auto

lemma find_Some_holds: "find P xs = Some y \<Longrightarrow> P y \<and> y \<in> set xs"
  by (induction xs) (auto split: if_splits)

lemma first_by_id_Some:
  "find (\<lambda>w. id_pk w = user_id) rows = Some u \<Longrightarrow> first_by_id user_id rows = Inr (Some u)"
  by (simp add: first_by_id_def)

lemma first_by_id_None:
  "find (\<lambda>w. id_pk w = user_id) rows = None \<Longrightarrow> in_int64 user_id \<Longrightarrow>
   first_by_id user_id rows = Inr None"
  by (simp add: first_by_id_def)

lemma first_by_id_Inr_Some:
  "first_by_id user_id rows = Inr (Some u) \<Longrightarrow> find (\<lambda>w. id_pk w = user_id) rows = Some u"
  by (auto simp: first_by_id_def split: option.splits if_splits)

section \<open>Create\<close>

text \<open>
  C1. A create request whose username is held by a row fails with
  \<^verbatim>\<open>UserAlreadyExistsException(field="username")\<close> carrying the username, whatever its email
  is, so that conflict is the one reported when both conflict; a request whose username is
  free and whose email is held by a row fails with the exception for \<^verbatim>\<open>"email"\<close>. The
  exception has status 409 and its detail names the field and the value. The table is left
  as it was.
\<close>

theorem create_user_conflict:
  "((\<exists>w\<in>set rows. username w = username user) \<longrightarrow>
      create_user now user rows =
        (Inl (UserAlreadyExistsException ''username'' (Some (username user))), rows)) \<and>
   (\<not> (\<exists>w\<in>set rows. username w = username user) \<and> (\<exists>w\<in>set rows. email w = email user) \<longrightarrow>
      create_user now user rows =
        (Inl (UserAlreadyExistsException ''email'' (Some (email user))), rows)) \<and>
   status_code (UserAlreadyExistsException fld (Some val)) = 409 \<and>
   detail (UserAlreadyExistsException fld (Some val)) =
     ''User with '' @ fld @ ''='' @ [CHR 0x27] @ val @ [CHR 0x27] @ '' already exists''"
proof (intro conjI impI)
  assume "\<exists>w\<in>set rows. username w = username user"
  then obtain y where "find (\<lambda>w. username w = username user) rows = Some y"
    using find_Some_ex [of rows "\<lambda>w. username w = username user"] by blast
  then show "create_user now user rows =
        (Inl (UserAlreadyExistsException ''username'' (Some (username user))), rows)"
    by (simp add: create_user_def)
next
  assume a: "\<not> (\<exists>w\<in>set rows. username w = username user) \<and> (\<exists>w\<in>set rows. email w = email user)"
  then have n: "find (\<lambda>w. username w = username user) rows = None"
    by (simp add: find_None_set)
  from a obtain y where "find (\<lambda>w. email w = email user) rows = Some y"
    using find_Some_ex [of rows "\<lambda>w. email w = email user"] by blast
  with n show "create_user now user rows =
        (Inl (UserAlreadyExistsException ''email'' (Some (email user))), rows)"
    by (simp add: create_user_def)
qed (simp_all add: UserAlreadyExistsException_def)

theorem create_user_conflict_witness:
  "(\<exists>w\<in>set [john, jane]. username w = username (sample_user_data\<lparr>email := email jane\<rparr>)) \<and>
   create_user 12 (sample_user_data\<lparr>email := email jane\<rparr>) [john, jane] =
     (Inl (HTTPException 409
        (''User with username='' @ [CHR 0x27] @ ''john_doe'' @ [CHR 0x27] @ '' already exists'')),
      [john, jane]) \<and>
   \<not> (\<exists>w\<in>set [john, jane]. username w = username (sample_user_data\<lparr>username := ''different_user''\<rparr>)) \<and>
   (\<exists>w\<in>set [john, jane]. email w = email (sample_user_data\<lparr>username := ''different_user''\<rparr>)) \<and>
   create_user 12 (sample_user_data\<lparr>username := ''different_user''\<rparr>) [john, jane] =
     (Inl (HTTPException 409
        (''User with email='' @ [CHR 0x27] @ ''john.doe@example.com'' @ [CHR 0x27] @ '' already exists'')),
      [john, jane])"
  using create_user_conflict [of "[john, jane]" "sample_user_data\<lparr>email := email jane\<rparr>" 12
      "''username''" "''john_doe''"]
    create_user_conflict [of "[john, jane]" "sample_user_data\<lparr>username := ''different_user''\<rparr>" 12
      "''email''" "''john.doe@example.com''"]
  by (simp add: john_def jane_def sample_user_data_def UserAlreadyExistsException_def)

section \<open>Get by id\<close>

lemma get_user_not_found_nonzero:
  "find (\<lambda>w. id_pk w = user_id) rows = None \<Longrightarrow> in_int64 user_id \<Longrightarrow> user_id \<noteq> 0 \<Longrightarrow>
   get_user user_id rows =
     Inl (HTTPException 404 (''User with id='' @ str_int user_id @ '' not found''))"
  by (simp add: get_user_def first_by_id_None UserNotFoundException_def)

text \<open>
  C9. For the id 0, which no row has, the detail of the \<^verbatim>\<open>UserNotFoundException\<close> does not
  report the id: \<^verbatim>\<open>f"id={user_id}" if user_id else f"username={username}"\<close> tests the
  truth value of the id, 0 is false, and the detail names \<^verbatim>\<open>username=None\<close>.
\<close>

theorem get_user_id_zero:
  "get_user 0 [john, jane] = Inl (HTTPException 404 ''User with username=None not found'')"
  by (simp add: get_user_def first_by_id_def in_int64_def john_def jane_def UserNotFoundException_def)

section \<open>Delete\<close>

text \<open>
  C7 as stated fails: no row has the id 9223372036854775808, and deleting it does not fail
  with \<^verbatim>\<open>UserNotFoundException\<close>; the lookup raises \<^verbatim>\<open>OverflowError\<close>.
\<close>

theorem delete_user_beyond_int64:
  "\<not> (\<exists>w\<in>set [john, jane]. id_pk w = 9223372036854775808) \<and>
   delete_user 9223372036854775808 [john, jane] = (Inl OverflowError, [john, jane]) \<and>
   OverflowError \<noteq> UserNotFoundException (Some 9223372036854775808) None"
  by (simp add: delete_user_def first_by_id_def in_int64_def john_def jane_def
      UserNotFoundException_def)

text \<open>
  C7, for the ids the store can hold. For an id in the signed 64-bit range: deleting an id
  that no row has fails with \<^verbatim>\<open>UserNotFoundException\<close> (status 404) and leaves the table as
  it was. Deleting an id that a row has returns \<^verbatim>\<open>None\<close> (204, no body) and removes the row:
  in the table after it, \<^verbatim>\<open>get_user\<close> on the id fails with \<^verbatim>\<open>UserNotFoundException\<close>, and so
  does a second \<^verbatim>\<open>delete_user\<close>.
\<close>

theorem delete_user_spec:
  assumes r: "in_int64 user_id"
  shows
  "(\<not> (\<exists>w\<in>set rows. id_pk w = user_id) \<longrightarrow>
      delete_user user_id rows = (Inl (UserNotFoundException (Some user_id) None), rows)) \<and>
   ((\<exists>w\<in>set rows. id_pk w = user_id) \<longrightarrow>
      (\<exists>rows'. delete_user user_id rows = (Inr (), rows') \<and>
         rows' = filter (\<lambda>w. id_pk w \<noteq> user_id) rows \<and>
         get_user user_id rows' = Inl (UserNotFoundException (Some user_id) None) \<and>
         delete_user user_id rows' = (Inl (UserNotFoundException (Some user_id) None), rows'))) \<and>
   status_code (UserNotFoundException (Some user_id) None) = 404"
proof (intro conjI impI)
  assume "\<not> (\<exists>w\<in>set rows. id_pk w = user_id)"
  then have "find (\<lambda>w. id_pk w = user_id) rows = None"
    by (simp add: find_None_set)
  then show "delete_user user_id rows = (Inl (UserNotFoundException (Some user_id) None), rows)"
    using r by (simp add: delete_user_def first_by_id_None)
next
  assume "\<exists>w\<in>set rows. id_pk w = user_id"
  then obtain y where y: "find (\<lambda>w. id_pk w = user_id) rows = Some y" "id_pk y = user_id"
    using find_Some_ex [of rows "\<lambda>w. id_pk w = user_id"] by blast
  let ?rows' = "filter (\<lambda>w. id_pk w \<noteq> user_id) rows"
  have gone: "find (\<lambda>w. id_pk w = user_id) ?rows' = None"
    by (simp add: find_None_set)
  have "delete_user user_id rows = (Inr (), ?rows')"
    using y by (simp add: delete_user_def first_by_id_Some)
  moreover have "get_user user_id ?rows' = Inl (UserNotFoundException (Some user_id) None)"
    using gone r by (simp add: get_user_def first_by_id_None)
  moreover have "delete_user user_id ?rows' = (Inl (UserNotFoundException (Some user_id) None), ?rows')"
    using gone r by (simp add: delete_user_def first_by_id_None)
  ultimately show "\<exists>rows'. delete_user user_id rows = (Inr (), rows') \<and>
         rows' = filter (\<lambda>w. id_pk w \<noteq> user_id) rows \<and>
         get_user user_id rows' = Inl (UserNotFoundException (Some user_id) None) \<and>
         delete_user user_id rows' = (Inl (UserNotFoundException (Some user_id) None), rows')"
    by blast
next
  show "status_code (UserNotFoundException (Some user_id) None) = 404"
    by (simp add: UserNotFoundException_def Let_def)
qed

theorem delete_user_spec_witness:
  "in_int64 99999 \<and> in_int64 1 \<and>
   \<not> (\<exists>w\<in>set [john, jane]. id_pk w = 99999) \<and>
   delete_user 99999 [john, jane] = (Inl (HTTPException 404 ''User with id=99999 not found''), [john, jane]) \<and>
   (\<exists>w\<in>set [john, jane]. id_pk w = 1) \<and>
   delete_user 1 [john, jane] = (Inr (), [jane]) \<and>
   get_user 1 [jane] = Inl (HTTPException 404 ''User with id=1 not found'') \<and>
   delete_user 1 [jane] = (Inl (HTTPException 404 ''User with id=1 not found''), [jane])"
  using delete_user_spec [of 99999 "[john, jane]"] delete_user_spec [of 1 "[john, jane]"]
  by (simp add: in_int64_def john_def jane_def UserNotFoundException_def str_int_def str_nat.simps
      digit_char_def)

section \<open>List\<close>

lemma db_value_for_elem_member:
  "db_value_for_elem (role_value m) = role_name m \<and> db_value_for_elem (role_name m) = role_name m"
  by (cases m) (simp_all add: db_value_for_elem_def)

lemma role_name_inj: "(role_name a = role_name b) = (a = b)"
  by (cases a; cases b) simp_all

lemma role_bound_match:
  "(role_name m = db_value_for_elem r) = (role_value m = r \<or> role_name m = r)"
proof (cases "find (\<lambda>k. role_value k = r \<or> role_name k = r) [ADMIN, USER, GUEST]")
  case None
  then have "\<forall>k\<in>set [ADMIN, USER, GUEST]. \<not> (role_value k = r \<or> role_name k = r)"
    by (simp only: find_None_set) blast
  moreover have "m \<in> set [ADMIN, USER, GUEST]" by (cases m) simp_all
  ultimately have "role_value m \<noteq> r \<and> role_name m \<noteq> r" by blast
  then show ?thesis using None by (auto simp: db_value_for_elem_def)
next
  case (Some k)
  then have k: "role_value k = r \<or> role_name k = r"
    using find_Some_holds [of "\<lambda>k. role_value k = r \<or> role_name k = r"] by blast
  have "(role_value m = r \<or> role_name m = r) = (m = k)"
    using k by (cases m; cases k) auto
  then show ?thesis using Some by (simp add: db_value_for_elem_def role_name_inj)
qed

lemma get_users_query:
  "(case role_q of
      None \<Rightarrow> (case active_q of None \<Rightarrow> rows | Some a \<Rightarrow> filter (\<lambda>u. active u = a) rows)
    | Some r \<Rightarrow>
        if r = [] then (case active_q of None \<Rightarrow> rows | Some a \<Rightarrow> filter (\<lambda>u. active u = a) rows)
        else filter (\<lambda>u. role_name (role u) = db_value_for_elem r)
               (case active_q of None \<Rightarrow> rows | Some a \<Rightarrow> filter (\<lambda>u. active u = a) rows)) =
   filter (matches_filters active_q role_q) rows"
  by (cases active_q; cases role_q)
     (auto simp: matches_filters_def role_bound_match intro!: filter_cong)

lemma get_users_matches:
  "in_int64 skip_q \<Longrightarrow> in_int64 limit_q \<Longrightarrow>
   get_users skip_q limit_q active_q role_q rows =
     Inr \<lparr>total_users = int (length (filter (matches_filters active_q role_q) rows)),
      users = (if limit_q < 0 then drop (nat skip_q) (filter (matches_filters active_q role_q) rows)
               else take (nat limit_q) (drop (nat skip_q) (filter (matches_filters active_q role_q) rows))),
      skip = skip_q, limit = limit_q\<rparr>"
  by (simp add: get_users_def Let_def get_users_query)

lemma get_users_route_Inr:
  assumes "get_users_route skip_p limit_p active_p role_p rows = Inr resp"
  shows "0 \<le> skip resp \<and> 1 \<le> limit resp \<and> limit resp \<le> 1000 \<and>
   skip resp = (case skip_p of None \<Rightarrow> 0 | Some s \<Rightarrow> s) \<and>
   limit resp = (case limit_p of None \<Rightarrow> 100 | Some l \<Rightarrow> l) \<and>
   get_users (skip resp) (limit resp) active_p role_p rows = Inr resp"
proof -
  define s where "s = (case skip_p of None \<Rightarrow> 0 | Some s \<Rightarrow> s)"
  define l where "l = (case limit_p of None \<Rightarrow> 100 | Some l \<Rightarrow> l)"
  from assms have b: "0 \<le> s" "1 \<le> l" "l \<le> 1000"
    and g: "get_users s l active_p role_p rows = Inr resp"
    by (auto simp: get_users_route_def Let_def s_def l_def split: if_splits sum.splits)
  from g have "skip resp = s \<and> limit resp = l"
    by (auto simp: get_users_def Let_def split: if_splits)
  with b g show ?thesis by (simp add: s_def l_def)
qed

lemma get_users_route_page:
  assumes "get_users_route skip_p limit_p active_p role_p rows = Inr resp"
  shows "total_users resp = int (length (filter (matches_filters active_p role_p) rows)) \<and>
         users resp = take (nat (limit resp)) (drop (nat (skip resp))
                        (filter (matches_filters active_p role_p) rows))"
proof -
  from assms have b: "1 \<le> limit resp"
    and r: "get_users (skip resp) (limit resp) active_p role_p rows = Inr resp"
    using get_users_route_Inr by blast+
  from r have i: "in_int64 (skip resp)" "in_int64 (limit resp)"
    by (auto simp: get_users_def Let_def split: if_splits)
  from r b have e: "\<lparr>total_users = int (length (filter (matches_filters active_p role_p) rows)),
       users = take (nat (limit resp)) (drop (nat (skip resp))
                 (filter (matches_filters active_p role_p) rows)),
       skip = skip resp, limit = limit resp\<rparr> = resp"
    by (simp add: get_users_matches [OF i])
  show ?thesis
    using arg_cong [OF e, of total_users] arg_cong [OF e, of users] by simp
qed

lemma get_users_Inl_iff:
  "(\<exists>e. get_users skip_q limit_q active_q role_q rows = Inl e) =
     (\<not> in_int64 skip_q \<or> \<not> in_int64 limit_q)"
  by (auto simp: get_users_def Let_def)

lemma get_users_route_Inl_iff:
  "(\<exists>e. get_users_route skip_p limit_p active_p role_p rows = Inl e) =
     (let s = (case skip_p of None \<Rightarrow> 0 | Some s \<Rightarrow> s);
          l = (case limit_p of None \<Rightarrow> 100 | Some l \<Rightarrow> l)
      in s < 0 \<or> l < 1 \<or> 1000 < l \<or> \<not> in_int64 s \<or> \<not> in_int64 l)"
proof -
  have "(\<exists>e. (case get_users s l active_p role_p rows of
               Inl e \<Rightarrow> Inl (Unhandled e) | Inr response \<Rightarrow> Inr response) = Inl e) =
        (\<not> in_int64 s \<or> \<not> in_int64 l)" for s l
    using get_users_Inl_iff [of s l active_p role_p rows]
    by (cases "get_users s l active_p role_p rows") auto
  then show ?thesis
    by (simp add: get_users_route_def Let_def)
qed

text \<open>
  C5. In the response to a list request that passes the bounds on \<^verbatim>\<open>skip\<close> and \<^verbatim>\<open>limit\<close>,
  \<^verbatim>\<open>total\<close> is the number of rows that match both filters, counted before pagination, and
  \<^verbatim>\<open>users\<close> is the matching rows after the first \<^verbatim>\<open>skip\<close> of them, at most \<^verbatim>\<open>limit\<close> of them.
  With \<^verbatim>\<open>limit = 1\<close> and fewer than N rows skipped out of N matching ones, one row is
  returned and \<^verbatim>\<open>total\<close> is N.
\<close>

theorem get_users_total_and_page:
  assumes "get_users_route skip_p limit_p active_p role_p rows = Inr resp"
    and "matching = filter (matches_filters active_p role_p) rows"
  shows "total_users resp = int (length matching) \<and>
         users resp = take (nat (limit resp)) (drop (nat (skip resp)) matching) \<and>
         int (length (users resp)) \<le> limit resp \<and>
         (limit resp = 1 \<and> skip resp < int (length matching) \<longrightarrow>
            length (users resp) = 1 \<and> total_users resp = int (length matching))"
proof -
  from assms(1) have b: "0 \<le> skip resp" "1 \<le> limit resp"
    using get_users_route_Inr by blast+
  have t: "total_users resp = int (length matching)"
    and u: "users resp = take (nat (limit resp)) (drop (nat (skip resp)) matching)"
    using get_users_route_page [OF assms(1)] by (simp_all add: assms(2))
  have l: "int (length (users resp)) \<le> limit resp"
    using b by (simp add: u)
  have "length (users resp) = 1" if "limit resp = 1" "skip resp < int (length matching)"
    using that b by (simp add: u min_def) linarith
  with t u l show ?thesis by blast
qed

theorem get_users_total_and_page_witness:
  "get_users_route (Some 0) (Some 1) None None [john, jane] =
     Inr \<lparr>total_users = 2, users = [john], skip = 0, limit = 1\<rparr> \<and>
   filter (matches_filters None None) [john, jane] = [john, jane] \<and>
   get_users_route (Some 1) (Some 1) (Some True) (Some ''admin'') [john, jane] =
     Inr \<lparr>total_users = 1, users = [], skip = 1, limit = 1\<rparr> \<and>
   get_users_route None None None (Some ''ADMIN'') [john, jane] =
     Inr \<lparr>total_users = 1, users = [jane], skip = 0, limit = 100\<rparr> \<and>
   filter (matches_filters None (Some ''ADMIN'')) [john, jane] = [jane]"
  using get_users_total_and_page [of "Some 0" "Some 1" None None "[john, jane]"
      "\<lparr>total_users = 2, users = [john], skip = 0, limit = 1\<rparr>" "[john, jane]"]
    get_users_total_and_page [of None None None "Some ''ADMIN''" "[john, jane]"
      "\<lparr>total_users = 1, users = [jane], skip = 0, limit = 100\<rparr>" "[jane]"]
  by (simp add: get_users_route_def get_users_def in_int64_def db_value_for_elem_def
      matches_filters_def john_def jane_def)

subsection \<open>The order of the rows\<close>




subsection \<open>The role filter\<close>

text \<open>
  C10 as stated fails: the role \<^verbatim>\<open>ADMIN\<close> is not empty and is none of \<^verbatim>\<open>admin\<close>, \<^verbatim>\<open>user\<close>,
  \<^verbatim>\<open>guest\<close>, and the request selects the row of the administrator.
\<close>

theorem get_users_role_member_name:
  "''ADMIN'' \<notin> {''admin'', ''user'', ''guest''} \<and> ''ADMIN'' \<noteq> [] \<and>
   get_users_route None None None (Some ''ADMIN'') [john, jane] =
     Inr \<lparr>total_users = 1, users = [jane], skip = 0, limit = 100\<rparr>"
  by (simp add: get_users_route_def get_users_def in_int64_def db_value_for_elem_def john_def
      jane_def)

text \<open>
  C10, as the code has it. Whether a list request is a validation error does not depend on
  its \<^verbatim>\<open>role\<close> parameter. A non-empty role that is neither a value (\<^verbatim>\<open>admin\<close>, \<^verbatim>\<open>user\<close>,
  \<^verbatim>\<open>guest\<close>) nor a member name (\<^verbatim>\<open>ADMIN\<close>, \<^verbatim>\<open>USER\<close>, \<^verbatim>\<open>GUEST\<close>) of the enum gives the response
  of the unfiltered request with no rows and \<^verbatim>\<open>total = 0\<close>; a member name gives the response
  of the member's value; the empty string gives the response of the request without a role.
\<close>

theorem get_users_role_filter:
  "((\<exists>e. get_users_route skip_p limit_p active_p role_p rows = Inl e) =
      (\<exists>e. get_users_route skip_p limit_p active_p None rows = Inl e)) \<and>
   (r \<notin> {''admin'', ''user'', ''guest'', ''ADMIN'', ''USER'', ''GUEST''} \<and> r \<noteq> [] \<and>
    get_users_route skip_p limit_p active_p None rows = Inr resp \<longrightarrow>
      get_users_route skip_p limit_p active_p (Some r) rows =
        Inr (resp\<lparr>total_users := 0, users := []\<rparr>)) \<and>
   get_users_route skip_p limit_p active_p (Some (role_name m)) rows =
     get_users_route skip_p limit_p active_p (Some (role_value m)) rows \<and>
   get_users_route skip_p limit_p active_p (Some []) rows =
     get_users_route skip_p limit_p active_p None rows"
proof (intro conjI impI)
  show "(\<exists>e. get_users_route skip_p limit_p active_p role_p rows = Inl e) =
      (\<exists>e. get_users_route skip_p limit_p active_p None rows = Inl e)"
    by (simp only: get_users_route_Inl_iff)
next
  assume a: "r \<notin> {''admin'', ''user'', ''guest'', ''ADMIN'', ''USER'', ''GUEST''} \<and> r \<noteq> [] \<and>
    get_users_route skip_p limit_p active_p None rows = Inr resp"
  have "role_value k \<noteq> r \<and> role_name k \<noteq> r" for k
    using a by (cases k) auto
  then have f: "filter (matches_filters active_p (Some r)) rows = []"
    using a by (auto simp: matches_filters_def filter_empty_conv)
  define s where "s = (case skip_p of None \<Rightarrow> 0 | Some s \<Rightarrow> s)"
  define l where "l = (case limit_p of None \<Rightarrow> 100 | Some l \<Rightarrow> l)"
  from a have b: "\<not> s < 0" "\<not> l < 1" "\<not> 1000 < l"
    and g: "get_users s l active_p None rows = Inr resp"
    by (auto simp: get_users_route_def Let_def s_def l_def split: if_splits sum.splits)
  from g have i: "in_int64 s" "in_int64 l"
    by (auto simp: get_users_def Let_def split: if_splits)
  have e: "resp\<lparr>total_users := 0, users := []\<rparr> =
      \<lparr>total_users = 0, users = [], skip = s, limit = l\<rparr>"
    using g by (auto simp: get_users_matches [OF i])
  have "get_users s l active_p (Some r) rows =
      Inr \<lparr>total_users = 0, users = [], skip = s, limit = l\<rparr>"
    by (simp add: get_users_matches [OF i] f)
  then show "get_users_route skip_p limit_p active_p (Some r) rows =
        Inr (resp\<lparr>total_users := 0, users := []\<rparr>)"
    unfolding get_users_route_def Let_def s_def [symmetric] l_def [symmetric]
    using b e by simp
next
  have "role_name m \<noteq> [] \<and> role_value m \<noteq> []" by (cases m) simp_all
  then have "get_users s l active_p (Some (role_name m)) rows =
        get_users s l active_p (Some (role_value m)) rows" for s l
    by (simp add: get_users_def db_value_for_elem_member)
  then show "get_users_route skip_p limit_p active_p (Some (role_name m)) rows =
     get_users_route skip_p limit_p active_p (Some (role_value m)) rows"
    by (simp add: get_users_route_def Let_def)
next
  show "get_users_route skip_p limit_p active_p (Some []) rows =
     get_users_route skip_p limit_p active_p None rows"
    by (simp add: get_users_route_def get_users_def Let_def)
qed

theorem get_users_role_filter_witness:
  "''superuser'' \<notin> {''admin'', ''user'', ''guest'', ''ADMIN'', ''USER'', ''GUEST''} \<and>
   ''superuser'' \<noteq> [] \<and>
   get_users_route None None None None [john, jane] =
     Inr \<lparr>total_users = 2, users = [john, jane], skip = 0, limit = 100\<rparr> \<and>
   get_users_route None None None (Some ''superuser'') [john, jane] =
     Inr \<lparr>total_users = 0, users = [], skip = 0, limit = 100\<rparr> \<and>
   get_users_route None None None (Some ''admin'') [john, jane] =
     Inr \<lparr>total_users = 1, users = [jane], skip = 0, limit = 100\<rparr> \<and>
   get_users_route None None None (Some []) [john, jane] =
     Inr \<lparr>total_users = 2, users = [john, jane], skip = 0, limit = 100\<rparr>"
  using get_users_role_filter [of None None None None "[john, jane]" "''superuser''"
      "\<lparr>total_users = 2, users = [john, jane], skip = 0, limit = 100\<rparr>" ADMIN]
  by (simp add: get_users_route_def get_users_def in_int64_def db_value_for_elem_def john_def
      jane_def)

section \<open>Update\<close>

lemma foldr_max_ge: "x \<in> set xs \<Longrightarrow> x \<le> foldr max xs (0::int)"
  by (induction xs) auto

lemma next_id_fresh: "w \<in> set rows \<Longrightarrow> id_pk w < next_id rows"
  using foldr_max_ge [of "id_pk w" "map id_pk rows"] by (simp add: next_id_def)

lemma distinct_col_eq:
  "distinct (map col rows) \<Longrightarrow> a \<in> set rows \<Longrightarrow> b \<in> set rows \<Longrightarrow> col a = col b \<Longrightarrow> a = b"
  by (meson distinct_map inj_on_def)

lemma precheck_taken:
  assumes "distinct (map col rows)" "u \<in> set rows" "other \<in> set rows" "id_pk other \<noteq> id_pk u"
  shows "precheck fld col (Supplied (Some (col other))) u rows =
           Some (UserAlreadyExistsException fld (Some (col other)))"
proof -
  have "col other \<noteq> col u"
    using assms distinct_col_eq [of col rows other u] by auto
  moreover obtain y where "find (\<lambda>w. col w = col other) rows = Some y"
    using find_Some_ex [of rows "\<lambda>w. col w = col other"] assms(3) by blast
  ultimately show ?thesis by simp
qed

lemma precheck_free: "keeps_unique col f u rows \<Longrightarrow> precheck fld col f u rows = None"
  by (cases f) (auto simp: keeps_unique_def list_ex_iff find_None_set split: option.splits dest!: find_Some_holds)

lemma find_False: "find (\<lambda>w. False) xs = None"
  by (induction xs) simp_all

lemma precheck_null: "precheck fld col (Supplied None) u rows = None"
  by (simp add: find_False)

lemma precheck_Some:
  "precheck fld col f u rows = Some e \<Longrightarrow>
   \<exists>v y. f = Supplied (Some v) \<and> v \<noteq> col u \<and> y \<in> set rows \<and> col y = v \<and>
          e = UserAlreadyExistsException fld (Some v)"
  by (cases f) (auto split: if_splits option.splits dest!: find_Some_holds)

lemma setattr_case:
  "setattr f old = Some x \<Longrightarrow> (case f of Omitted \<Rightarrow> x = old | Supplied v \<Rightarrow> v = Some x)"
  by (cases f) (auto simp: setattr_def)

lemma apply_update_Some:
  assumes "apply_update upd u = Some c"
  shows "setattr (username_upd upd) (username u) = Some (username c) \<and>
         setattr (email_upd upd) (email u) = Some (email c) \<and>
         setattr (first_name_upd upd) (first_name u) = Some (first_name c) \<and>
         setattr (last_name_upd upd) (last_name u) = Some (last_name c) \<and>
         setattr (role_upd upd) (role u) = Some (role c) \<and>
         setattr (active_upd upd) (active u) = Some (active c) \<and>
         id_pk c = id_pk u \<and> created_at c = created_at u \<and> updated_at c = updated_at u"
proof -
  from assms obtain un em fn ln r a where
    s: "setattr (username_upd upd) (username u) = Some un"
       "setattr (email_upd upd) (email u) = Some em"
       "setattr (first_name_upd upd) (first_name u) = Some fn"
       "setattr (last_name_upd upd) (last_name u) = Some ln"
       "setattr (role_upd upd) (role u) = Some r"
       "setattr (active_upd upd) (active u) = Some a"
    and c: "c = u\<lparr>username := un, email := em, first_name := fn, last_name := ln,
                    role := r, active := a\<rparr>"
    unfolding apply_update_def bind_eq_Some_conv by blast
  show ?thesis by (simp add: s c)
qed

lemma apply_update_fields:
  "apply_update upd u = Some c \<Longrightarrow>
   (case username_upd upd of Omitted \<Rightarrow> username c = username u | Supplied v \<Rightarrow> v = Some (username c)) \<and>
   (case email_upd upd of Omitted \<Rightarrow> email c = email u | Supplied v \<Rightarrow> v = Some (email c)) \<and>
   (case first_name_upd upd of Omitted \<Rightarrow> first_name c = first_name u | Supplied v \<Rightarrow> v = Some (first_name c)) \<and>
   (case last_name_upd upd of Omitted \<Rightarrow> last_name c = last_name u | Supplied v \<Rightarrow> v = Some (last_name c)) \<and>
   (case role_upd upd of Omitted \<Rightarrow> role c = role u | Supplied v \<Rightarrow> v = Some (role c)) \<and>
   (case active_upd upd of Omitted \<Rightarrow> active c = active u | Supplied v \<Rightarrow> v = Some (active c)) \<and>
   id_pk c = id_pk u \<and> created_at c = created_at u \<and> updated_at c = updated_at u"
  using apply_update_Some [of upd u c] by (auto intro: setattr_case)

lemma setattr_Some: "f \<noteq> Supplied None \<Longrightarrow> \<exists>x. setattr f old = Some x"
  by (cases f) (auto simp: setattr_def)

lemma apply_update_total:
  assumes "username_upd upd \<noteq> Supplied None" "email_upd upd \<noteq> Supplied None"
    "first_name_upd upd \<noteq> Supplied None" "last_name_upd upd \<noteq> Supplied None"
    "role_upd upd \<noteq> Supplied None" "active_upd upd \<noteq> Supplied None"
  shows "\<exists>c. apply_update upd u = Some c"
proof -
  obtain a b c d e f where
    "setattr (username_upd upd) (username u) = Some a" "setattr (email_upd upd) (email u) = Some b"
    "setattr (first_name_upd upd) (first_name u) = Some c" "setattr (last_name_upd upd) (last_name u) = Some d"
    "setattr (role_upd upd) (role u) = Some e" "setattr (active_upd upd) (active u) = Some f"
    using assms setattr_Some by metis
  then show ?thesis by (simp add: apply_update_def)
qed

lemma setattr_null: "setattr (Supplied None) old = None"
  by (simp add: setattr_def)

lemma apply_update_null:
  "username_upd upd = Supplied None \<or> email_upd upd = Supplied None \<or>
   first_name_upd upd = Supplied None \<or> last_name_upd upd = Supplied None \<or>
   role_upd upd = Supplied None \<or> active_upd upd = Supplied None \<Longrightarrow> apply_update upd u = None"
  unfolding apply_update_def bind_eq_None_conv by (metis setattr_null option.distinct(1))

lemma keeps_unique_not_null: "keeps_unique col f u rows \<Longrightarrow> f \<noteq> Supplied None"
  by (auto simp: keeps_unique_def)

lemma keeps_unique_col:
  assumes "keeps_unique col f u rows" "distinct (map col rows)" "u \<in> set rows"
    "case f of Omitted \<Rightarrow> x = col u | Supplied v \<Rightarrow> v = Some x"
    "w \<in> set rows" "col w = x"
  shows "w = u"
proof (cases "x = col u")
  case True
  then show ?thesis using assms distinct_col_eq [of col rows w u] by simp
next
  case False
  then show ?thesis using assms by (auto simp: keeps_unique_def list_ex_iff split: field_upd.splits option.splits)
qed

lemma commit_update_ok:
  assumes ok: "db_ok rows" and u: "u \<in> set rows"
    and ku: "keeps_unique username (username_upd upd) u rows"
    and ke: "keeps_unique email (email_upd upd) u rows"
    and nn: "first_name_upd upd \<noteq> Supplied None" "last_name_upd upd \<noteq> Supplied None"
       "role_upd upd \<noteq> Supplied None" "active_upd upd \<noteq> Supplied None"
  shows "\<exists>u' rows'. commit_update now u upd rows = Inr (u', rows')"
proof -
  obtain c where c: "apply_update upd u = Some c"
    using apply_update_total [of upd u] nn keeps_unique_not_null [OF ku] keeps_unique_not_null [OF ke]
    by blast
  note f = apply_update_fields [OF c]
  have "\<not> list_ex (\<lambda>w. id_pk w \<noteq> id_pk u \<and> (username w = username c \<or> email w = email c)) rows"
  proof
    assume "list_ex (\<lambda>w. id_pk w \<noteq> id_pk u \<and> (username w = username c \<or> email w = email c)) rows"
    then obtain w where w: "w \<in> set rows" "id_pk w \<noteq> id_pk u"
        "username w = username c \<or> email w = email c"
      by (auto simp: list_ex_iff)
    from w(3) have "w = u"
    proof
      assume e: "username w = username c"
      have "distinct (map username rows)" using ok by (simp add: db_ok_def)
      moreover have "case username_upd upd of Omitted \<Rightarrow> username c = username u
                     | Supplied v \<Rightarrow> v = Some (username c)"
        using f by simp
      ultimately show ?thesis
        using keeps_unique_col [OF ku _ u _ w(1) e] by blast
    next
      assume e: "email w = email c"
      have "distinct (map email rows)" using ok by (simp add: db_ok_def)
      moreover have "case email_upd upd of Omitted \<Rightarrow> email c = email u
                     | Supplied v \<Rightarrow> v = Some (email c)"
        using f by simp
      ultimately show ?thesis
        using keeps_unique_col [OF ke _ u _ w(1) e] by blast
    qed
    with w(2) show False by simp
  qed
  then show ?thesis
    using c by (simp add: commit_update_def Let_def)
qed

lemma commit_update_Inr:
  assumes "commit_update now u upd rows = Inr (u', rows')"
  shows "\<exists>c. apply_update upd u = Some c \<and>
           (if c = u then u' = u \<and> rows' = rows
            else u' = c\<lparr>updated_at := now\<rparr> \<and>
                 rows' = map (\<lambda>w. if id_pk w = id_pk u then u' else w) rows)"
  using assms by (auto simp: commit_update_def Let_def split: option.splits if_splits)

lemma update_user_Inr:
  assumes "find (\<lambda>w. id_pk w = user_id) rows = Some u"
    and "update_user now user_id upd rows = (Inr u', rows')"
  shows "commit_update now u upd rows = Inr (u', rows')"
  using assms by (auto simp: update_user_def first_by_id_Some split: option.splits sum.splits db_error.splits)

lemma update_user_ok:
  assumes ok: "db_ok rows" and u: "find (\<lambda>w. id_pk w = user_id) rows = Some u"
    and ku: "keeps_unique username (username_upd upd) u rows"
    and ke: "keeps_unique email (email_upd upd) u rows"
    and nn: "first_name_upd upd \<noteq> Supplied None" "last_name_upd upd \<noteq> Supplied None"
       "role_upd upd \<noteq> Supplied None" "active_upd upd \<noteq> Supplied None"
  shows "\<exists>u' rows'. update_user now user_id upd rows = (Inr u', rows')"
proof -
  have "u \<in> set rows" using find_Some_holds [OF u] by simp
  then obtain u' rows' where "commit_update now u upd rows = Inr (u', rows')"
    using commit_update_ok [OF ok _ ku ke nn] by blast
  then show ?thesis
    using u precheck_free [OF ku] precheck_free [OF ke] by (simp add: update_user_def first_by_id_Some)
qed

lemma find_map_replace:
  "find P xs = Some u \<Longrightarrow> P u' \<Longrightarrow> find P (map (\<lambda>w. if P w then u' else w) xs) = Some u'"
  by (induction xs) (auto split: if_splits)

lemma filter_map_replace:
  "P u' \<Longrightarrow> filter (\<lambda>w. \<not> P w) (map (\<lambda>w. if P w then u' else w) xs) = filter (\<lambda>w. \<not> P w) xs"
  by (induction xs) auto

lemma distinct_id_eq:
  "db_ok rows \<Longrightarrow> a \<in> set rows \<Longrightarrow> b \<in> set rows \<Longrightarrow> id_pk a = id_pk b \<Longrightarrow> a = b"
  using distinct_col_eq [of id_pk rows a b] by (simp add: db_ok_def)

text \<open>
  C2. On a table that satisfies its constraints, for a row \<open>u\<close> with the id of the request:
  a request that sets \<^verbatim>\<open>username\<close> to the username of a row with another id fails with
  \<^verbatim>\<open>UserAlreadyExistsException\<close> for \<^verbatim>\<open>"username"\<close>; a request that sets \<^verbatim>\<open>email\<close> to the email of
  a row with another id, its username being no such conflict, fails with the exception for
  \<^verbatim>\<open>"email"\<close>; in both cases the table is left as it was. A request that sets \<^verbatim>\<open>username\<close> or
  \<^verbatim>\<open>email\<close> to the row's own value succeeds, provided that the other unique field is omitted,
  the row's own or held by no row, and no field is set to \<^verbatim>\<open>null\<close>.
\<close>

theorem update_user_uniqueness:
  assumes ok: "db_ok rows" and u: "find (\<lambda>w. id_pk w = user_id) rows = Some u"
  shows
   "(\<forall>other\<in>set rows. id_pk other \<noteq> user_id \<and> username_upd upd = Supplied (Some (username other)) \<longrightarrow>
        update_user now user_id upd rows =
          (Inl (UserAlreadyExistsException ''username'' (Some (username other))), rows)) \<and>
    (\<forall>other\<in>set rows. id_pk other \<noteq> user_id \<and> email_upd upd = Supplied (Some (email other)) \<and>
        \<not> (\<exists>w\<in>set rows. id_pk w \<noteq> user_id \<and> username_upd upd = Supplied (Some (username w))) \<longrightarrow>
        update_user now user_id upd rows =
          (Inl (UserAlreadyExistsException ''email'' (Some (email other))), rows)) \<and>
    ((username_upd upd = Supplied (Some (username u)) \<or> email_upd upd = Supplied (Some (email u))) \<and>
     keeps_unique username (username_upd upd) u rows \<and> keeps_unique email (email_upd upd) u rows \<and>
     first_name_upd upd \<noteq> Supplied None \<and> last_name_upd upd \<noteq> Supplied None \<and>
     role_upd upd \<noteq> Supplied None \<and> active_upd upd \<noteq> Supplied None \<longrightarrow>
        (\<exists>u' rows'. update_user now user_id upd rows = (Inr u', rows')))"
proof (intro conjI ballI impI)
  have uin: "u \<in> set rows" and uid: "id_pk u = user_id"
    using find_Some_holds [OF u] by simp_all
  {
    fix other
    assume o: "other \<in> set rows"
      and c: "id_pk other \<noteq> user_id \<and> username_upd upd = Supplied (Some (username other))"
    have "distinct (map username rows)" using ok by (simp add: db_ok_def)
    then have "precheck ''username'' username (username_upd upd) u rows =
        Some (UserAlreadyExistsException ''username'' (Some (username other)))"
      using precheck_taken [of username rows u other "''username''"] uin o c uid by simp
    then show "update_user now user_id upd rows =
        (Inl (UserAlreadyExistsException ''username'' (Some (username other))), rows)"
      using u by (simp add: update_user_def first_by_id_Some)
  next
    fix other
    assume o: "other \<in> set rows"
      and c: "id_pk other \<noteq> user_id \<and> email_upd upd = Supplied (Some (email other)) \<and>
        \<not> (\<exists>w\<in>set rows. id_pk w \<noteq> user_id \<and> username_upd upd = Supplied (Some (username w)))"
    have "precheck ''username'' username (username_upd upd) u rows = None"
    proof (cases "precheck ''username'' username (username_upd upd) u rows")
      case (Some e)
      then obtain v y where y: "username_upd upd = Supplied (Some v)" "v \<noteq> username u"
          "y \<in> set rows" "username y = v"
        using precheck_Some by blast
      then have "y \<noteq> u" by auto
      then have "id_pk y \<noteq> user_id"
        using distinct_id_eq [OF ok y(3) uin] uid by auto
      with y c show ?thesis by blast
    qed simp
    moreover have "distinct (map email rows)" using ok by (simp add: db_ok_def)
    then have "precheck ''email'' email (email_upd upd) u rows =
        Some (UserAlreadyExistsException ''email'' (Some (email other)))"
      using precheck_taken [of email rows u other "''email''"] uin o c uid by simp
    ultimately show "update_user now user_id upd rows =
        (Inl (UserAlreadyExistsException ''email'' (Some (email other))), rows)"
      using u by (simp add: update_user_def first_by_id_Some)
  next
    assume "(username_upd upd = Supplied (Some (username u)) \<or> email_upd upd = Supplied (Some (email u))) \<and>
     keeps_unique username (username_upd upd) u rows \<and> keeps_unique email (email_upd upd) u rows \<and>
     first_name_upd upd \<noteq> Supplied None \<and> last_name_upd upd \<noteq> Supplied None \<and>
     role_upd upd \<noteq> Supplied None \<and> active_upd upd \<noteq> Supplied None"
    then show "\<exists>u' rows'. update_user now user_id upd rows = (Inr u', rows')"
      using update_user_ok [OF ok u] by blast
  }
qed

lemma db_ok_john_jane: "db_ok [john, jane]"
  by (simp add: db_ok_def john_def jane_def)

lemma find_john: "find (\<lambda>w. id_pk w = 1) [john, jane] = Some john"
  by (simp add: john_def)

theorem update_user_uniqueness_witness:
  "db_ok [john, jane] \<and> find (\<lambda>w. id_pk w = 1) [john, jane] = Some john \<and>
   update_user 20 1 (no_fields\<lparr>username_upd := Supplied (Some ''jane_smith'')\<rparr>) [john, jane] =
     (Inl (UserAlreadyExistsException ''username'' (Some ''jane_smith'')), [john, jane]) \<and>
   update_user 20 1 (no_fields\<lparr>email_upd := Supplied (Some ''jane.smith@example.com'')\<rparr>) [john, jane] =
     (Inl (UserAlreadyExistsException ''email'' (Some ''jane.smith@example.com'')), [john, jane]) \<and>
   update_user 20 1 (no_fields\<lparr>username_upd := Supplied (Some ''john_doe''),
                               email_upd := Supplied (Some ''john.doe@example.com''),
                               last_name_upd := Supplied (Some ''Roe'')\<rparr>) [john, jane] =
     (Inr (john\<lparr>last_name := ''Roe'', updated_at := 20\<rparr>),
      [john\<lparr>last_name := ''Roe'', updated_at := 20\<rparr>, jane])"
  using update_user_uniqueness [OF db_ok_john_jane find_john,
      of "no_fields\<lparr>username_upd := Supplied (Some ''jane_smith'')\<rparr>" 20]
    update_user_uniqueness [OF db_ok_john_jane find_john,
      of "no_fields\<lparr>email_upd := Supplied (Some ''jane.smith@example.com'')\<rparr>" 20]
    update_user_uniqueness [OF db_ok_john_jane find_john,
      of "no_fields\<lparr>username_upd := Supplied (Some ''john_doe''),
                               email_upd := Supplied (Some ''john.doe@example.com''),
                               last_name_upd := Supplied (Some ''Roe'')\<rparr>" 20]
  by (simp add: db_ok_def update_user_def first_by_id_def commit_update_def apply_update_def setattr_def
      no_fields_def john_def jane_def Let_def)

lemma update_user_result:
  assumes u: "find (\<lambda>w. id_pk w = user_id) rows = Some u"
    and r: "update_user now user_id upd rows = (Inr u', rows')"
  shows "\<exists>c. apply_update upd u = Some c \<and>
           (if c = u then u' = u \<and> rows' = rows
            else u' = c\<lparr>updated_at := now\<rparr> \<and>
                 rows' = map (\<lambda>w. if id_pk w = user_id then u' else w) rows)"
proof -
  have "id_pk u = user_id" using find_Some_holds [OF u] by simp
  then show ?thesis using commit_update_Inr [OF update_user_Inr [OF u r]] by blast
qed

text \<open>
  C3. After a successful update, every field the request omitted has the value it had, and
  every field the request supplied has the supplied value, which is never \<^verbatim>\<open>null\<close>; so a
  supplied field is told from an omitted one whatever its value is. The id and \<^verbatim>\<open>created_at\<close>
  are unchanged, the row is the one now found under the id, and the other rows are as
  they were.
\<close>

theorem update_user_changes_supplied_fields:
  assumes u: "find (\<lambda>w. id_pk w = user_id) rows = Some u"
    and r: "update_user now user_id upd rows = (Inr u', rows')"
  shows "(case username_upd upd of Omitted \<Rightarrow> username u' = username u | Supplied v \<Rightarrow> v = Some (username u')) \<and>
         (case email_upd upd of Omitted \<Rightarrow> email u' = email u | Supplied v \<Rightarrow> v = Some (email u')) \<and>
         (case first_name_upd upd of Omitted \<Rightarrow> first_name u' = first_name u | Supplied v \<Rightarrow> v = Some (first_name u')) \<and>
         (case last_name_upd upd of Omitted \<Rightarrow> last_name u' = last_name u | Supplied v \<Rightarrow> v = Some (last_name u')) \<and>
         (case role_upd upd of Omitted \<Rightarrow> role u' = role u | Supplied v \<Rightarrow> v = Some (role u')) \<and>
         (case active_upd upd of Omitted \<Rightarrow> active u' = active u | Supplied v \<Rightarrow> v = Some (active u')) \<and>
         id_pk u' = id_pk u \<and> created_at u' = created_at u \<and>
         find (\<lambda>w. id_pk w = user_id) rows' = Some u' \<and>
         filter (\<lambda>w. id_pk w \<noteq> user_id) rows' = filter (\<lambda>w. id_pk w \<noteq> user_id) rows \<and>
         length rows' = length rows"
proof -
  obtain c where c: "apply_update upd u = Some c"
    and cases: "if c = u then u' = u \<and> rows' = rows
            else u' = c\<lparr>updated_at := now\<rparr> \<and>
                 rows' = map (\<lambda>w. if id_pk w = user_id then u' else w) rows"
    using update_user_result [OF u r] by blast
  note f = apply_update_fields [OF c]
  have uid: "id_pk u = user_id" using find_Some_holds [OF u] by simp
  show ?thesis
  proof (cases "c = u")
    case True
    with cases have e: "u' = u" "rows' = rows" by simp_all
    show ?thesis unfolding e using f [unfolded True] u by simp
  next
    case False
    with cases have u': "u' = c\<lparr>updated_at := now\<rparr>"
      and rows': "rows' = map (\<lambda>w. if id_pk w = user_id then u' else w) rows" by simp_all
    have id': "id_pk u' = user_id" using u' f uid by simp
    have "find (\<lambda>w. id_pk w = user_id) rows' = Some u'"
      using find_map_replace [of "\<lambda>w. id_pk w = user_id" rows u u'] u id' by (simp add: rows')
    moreover have "filter (\<lambda>w. id_pk w \<noteq> user_id) rows' = filter (\<lambda>w. id_pk w \<noteq> user_id) rows"
      using filter_map_replace [of "\<lambda>w. id_pk w = user_id" u' rows] id' by (simp add: rows')
    moreover have "length rows' = length rows" by (simp add: rows')
    moreover have ue: "username u' = username c" "email u' = email c" "first_name u' = first_name c"
      "last_name u' = last_name c" "role u' = role c" "active u' = active c"
      "id_pk u' = id_pk c" "created_at u' = created_at c"
      by (simp_all add: u')
    ultimately show ?thesis unfolding ue using f by simp
  qed
qed

lemma find_jane: "find (\<lambda>w. id_pk w = 2) [john, jane] = Some jane"
  by (simp add: john_def jane_def)

theorem update_user_changes_supplied_fields_witness:
  "find (\<lambda>w. id_pk w = 2) [john, jane] = Some jane \<and>
   update_user 20 2 (no_fields\<lparr>first_name_upd := Supplied (Some ''NewName''),
                               role_upd := Supplied (Some USER)\<rparr>) [john, jane] =
     (Inr (jane\<lparr>first_name := ''NewName'', role := USER, updated_at := 20\<rparr>),
      [john, jane\<lparr>first_name := ''NewName'', role := USER, updated_at := 20\<rparr>]) \<and>
   update_user 20 2 (no_fields\<lparr>first_name_upd := Supplied (Some ''NewName'')\<rparr>) [john, jane] =
     (Inr (jane\<lparr>first_name := ''NewName'', updated_at := 20\<rparr>),
      [john, jane\<lparr>first_name := ''NewName'', updated_at := 20\<rparr>]) \<and>
   role jane = ADMIN \<and> email jane = ''jane.smith@example.com''"
  using update_user_changes_supplied_fields [OF find_jane,
      of 20 "no_fields\<lparr>first_name_upd := Supplied (Some ''NewName''), role_upd := Supplied (Some USER)\<rparr>"
         "jane\<lparr>first_name := ''NewName'', role := USER, updated_at := 20\<rparr>"
         "[john, jane\<lparr>first_name := ''NewName'', role := USER, updated_at := 20\<rparr>]"]
    update_user_changes_supplied_fields [OF find_jane,
      of 20 "no_fields\<lparr>first_name_upd := Supplied (Some ''NewName'')\<rparr>"
         "jane\<lparr>first_name := ''NewName'', updated_at := 20\<rparr>"
         "[john, jane\<lparr>first_name := ''NewName'', updated_at := 20\<rparr>]"]
  by (simp add: update_user_def first_by_id_def commit_update_def apply_update_def setattr_def
      no_fields_def john_def jane_def Let_def)

text \<open>A field set to \<^verbatim>\<open>null\<close> is not an omitted one: the commit fails and the answer is 409.\<close>

lemma update_user_null_rejected:
  assumes u: "find (\<lambda>w. id_pk w = user_id) rows = Some u"
    and n: "username_upd upd = Supplied None \<or> email_upd upd = Supplied None \<or>
       first_name_upd upd = Supplied None \<or> last_name_upd upd = Supplied None \<or>
       role_upd upd = Supplied None \<or> active_upd upd = Supplied None"
  shows "\<exists>e. update_user now user_id upd rows = (Inl e, rows) \<and> status_code e = 409"
proof -
  have "commit_update now u upd rows = Inl IntegrityError"
    using apply_update_null [OF n] by (simp add: commit_update_def)
  then show ?thesis
    using u by (auto simp: update_user_def first_by_id_Some UserAlreadyExistsException_def
        split: option.splits dest!: precheck_Some)
qed

lemma columns_eq: "columns a = columns b \<Longrightarrow> id_pk a = id_pk b \<Longrightarrow> created_at a = created_at b \<Longrightarrow>
  updated_at a = updated_at b \<Longrightarrow> a = (b::User)"
  by (cases a, cases b) (simp add: columns_def)

text \<open>
  C8, as the code has it. A successful update never changes \<^verbatim>\<open>created_at\<close>. When it changes
  the value of at least one column, \<^verbatim>\<open>updated_at\<close> becomes the reading of the store's clock, so
  it increases strictly when the clock is past the former \<^verbatim>\<open>updated_at\<close>. When it changes no
  column (no field supplied, or only values the row already has), \<^verbatim>\<open>updated_at\<close> is left as
  it was.
\<close>

theorem update_user_timestamps:
  assumes u: "find (\<lambda>w. id_pk w = user_id) rows = Some u"
    and r: "update_user now user_id upd rows = (Inr u', rows')"
  shows "created_at u' = created_at u \<and>
         (if columns u' = columns u then updated_at u' = updated_at u else updated_at u' = now) \<and>
         (columns u' \<noteq> columns u \<and> updated_at u < now \<longrightarrow> updated_at u < updated_at u')"
proof -
  obtain c where c: "apply_update upd u = Some c"
    and cases: "if c = u then u' = u \<and> rows' = rows
            else u' = c\<lparr>updated_at := now\<rparr> \<and>
                 rows' = map (\<lambda>w. if id_pk w = user_id then u' else w) rows"
    using update_user_result [OF u r] by blast
  have same: "id_pk c = id_pk u" "created_at c = created_at u" "updated_at c = updated_at u"
    using apply_update_Some [OF c] by simp_all
  show ?thesis
  proof (cases "c = u")
    case True
    with cases show ?thesis by simp
  next
    case False
    with cases have u': "u' = c\<lparr>updated_at := now\<rparr>" by simp
    have "columns c \<noteq> columns u"
      using False columns_eq [of c u] same by blast
    then have "columns u' \<noteq> columns u" by (simp add: u' columns_def)
    then show ?thesis using same by (simp add: u')
  qed
qed

theorem update_user_timestamps_witness:
  "find (\<lambda>w. id_pk w = 1) [john, jane] = Some john \<and>
   update_user 20 1 (no_fields\<lparr>first_name_upd := Supplied (Some ''NewName'')\<rparr>) [john, jane] =
     (Inr (john\<lparr>first_name := ''NewName'', updated_at := 20\<rparr>),
      [john\<lparr>first_name := ''NewName'', updated_at := 20\<rparr>, jane]) \<and>
   columns (john\<lparr>first_name := ''NewName'', updated_at := 20\<rparr>) \<noteq> columns john \<and>
   updated_at john < 20 \<and>
   updated_at john < updated_at (john\<lparr>first_name := ''NewName'', updated_at := 20\<rparr>) \<and>
   created_at (john\<lparr>first_name := ''NewName'', updated_at := 20\<rparr>) = created_at john"
  using update_user_timestamps [OF find_john,
      of 20 "no_fields\<lparr>first_name_upd := Supplied (Some ''NewName'')\<rparr>"
         "john\<lparr>first_name := ''NewName'', updated_at := 20\<rparr>"
         "[john\<lparr>first_name := ''NewName'', updated_at := 20\<rparr>, jane]"]
  by (simp add: update_user_def first_by_id_def commit_update_def apply_update_def setattr_def columns_def
      no_fields_def john_def jane_def Let_def)

text \<open>
  C8 as stated fails: an update with no field, and one that supplies only the first name
  the row has, succeed at clock reading 20 and return the row with its \<^verbatim>\<open>updated_at\<close> of 10.
\<close>

theorem update_user_no_change_keeps_updated_at:
  "update_user 20 1 no_fields [john, jane] = (Inr john, [john, jane]) \<and>
   update_user 20 1 (no_fields\<lparr>first_name_upd := Supplied (Some ''John'')\<rparr>) [john, jane] =
     (Inr john, [john, jane]) \<and>
   updated_at john = 10"
  by (simp add: update_user_def first_by_id_def commit_update_def apply_update_def setattr_def
      no_fields_def john_def jane_def Let_def)

section \<open>The constraints hold in every reachable table\<close>

lemma apply_update_id:
  "apply_update upd u = Some c \<Longrightarrow> id_pk c = id_pk u"
  using apply_update_Some [of upd u c] by simp

lemma commit_update_ids:
  "commit_update now u upd rows = Inr (u', rows') \<Longrightarrow> map id_pk rows' = map id_pk rows"
  by (auto simp: commit_update_def Let_def split: option.splits if_splits dest!: apply_update_id)

lemma distinct_map_replace:
  assumes "distinct (map k xs)" "distinct (map f xs)" "\<forall>w\<in>set xs. k w \<noteq> k0 \<longrightarrow> f w \<noteq> f r"
  shows "distinct (map f (map (\<lambda>w. if k w = k0 then r else w) xs))"
  using assms
proof (induction xs)
  case Nil
  show ?case by simp
next
  case (Cons x xs)
  show ?case
  proof (cases "k x = k0")
    case True
    then have "\<forall>w\<in>set xs. k w \<noteq> k0" using Cons.prems(1) by (fastforce simp: image_iff)
    then have "map (\<lambda>w. if k w = k0 then r else w) xs = xs" by (simp add: map_idI)
    moreover have "f r \<notin> f ` set xs" using Cons.prems(3) \<open>\<forall>w\<in>set xs. k w \<noteq> k0\<close> by auto
    ultimately show ?thesis using True Cons.prems(2) by simp
  next
    case False
    have ih: "distinct (map f (map (\<lambda>w. if k w = k0 then r else w) xs))"
      using Cons by simp
    have "f x \<noteq> f r" using Cons.prems(3) False by simp
    moreover have "\<forall>w\<in>set xs. f x \<noteq> f w" using Cons.prems(2) by auto
    ultimately have "\<forall>w\<in>set xs. f x \<noteq> f (if k w = k0 then r else w)" by simp
    then have "f x \<notin> set (map f (map (\<lambda>w. if k w = k0 then r else w) xs))"
      by (auto simp: image_iff)
    with ih show ?thesis using False by simp
  qed
qed

lemma create_user_db_ok: "db_ok rows \<Longrightarrow> db_ok (snd (create_user now user rows))"
  by (auto simp: create_user_def commit_insert_def db_ok_def Let_def list_ex_iff
      split: option.splits sum.splits db_error.splits dest: next_id_fresh)

lemma commit_update_db_ok:
  assumes ok: "db_ok rows" and c: "commit_update now u upd rows = Inr (u', rows')"
  shows "db_ok rows'"
proof -
  obtain c where a: "apply_update upd u = Some c"
    and cases: "if c = u then u' = u \<and> rows' = rows
            else u' = c\<lparr>updated_at := now\<rparr> \<and>
                 rows' = map (\<lambda>w. if id_pk w = id_pk u then u' else w) rows"
    using commit_update_Inr [OF c] by blast
  show ?thesis
  proof (cases "c = u")
    case True
    with cases ok show ?thesis by simp
  next
    case False
    with cases have u': "u' = c\<lparr>updated_at := now\<rparr>"
      and rows': "rows' = map (\<lambda>w. if id_pk w = id_pk u then u' else w) rows" by simp_all
    have free: "\<forall>w\<in>set rows. id_pk w \<noteq> id_pk u \<longrightarrow> username w \<noteq> username u' \<and> email w \<noteq> email u'"
      using c a False by (auto simp: commit_update_def Let_def list_ex_iff u' split: if_splits)
    have "distinct (map id_pk rows')"
      using commit_update_ids [OF c] ok by (simp add: db_ok_def)
    moreover have "distinct (map username rows')"
      unfolding rows' using ok free by (intro distinct_map_replace) (simp_all add: db_ok_def)
    moreover have "distinct (map email rows')"
      unfolding rows' using ok free by (intro distinct_map_replace) (simp_all add: db_ok_def)
    ultimately show ?thesis by (simp add: db_ok_def)
  qed
qed

lemma update_user_db_ok: "db_ok rows \<Longrightarrow> db_ok (snd (update_user now user_id upd rows))"
  by (auto simp: update_user_def split: option.splits sum.splits db_error.splits dest: commit_update_db_ok)

lemma delete_user_db_ok: "db_ok rows \<Longrightarrow> db_ok (snd (delete_user user_id rows))"
  by (auto simp: delete_user_def db_ok_def distinct_map_filter split: option.splits sum.splits)

lemma reachable_db_ok: "reachable rows \<Longrightarrow> db_ok rows"
proof (induction rule: reachable.induct)
  case reach_init
  show ?case by (simp add: db_ok_def)
qed (simp_all add: create_user_db_ok update_user_db_ok delete_user_db_ok)

section \<open>Username validation: the accepted language\<close>


lemma underscore_not_alnum: "\<not> isalnum_char CHR ''_''"
  by (simp add: isalnum_char_def)



text \<open>
  A username of underscores only is rejected, the string left by \<^verbatim>\<open>replace("_", "")\<close> being
  empty, although it consists of underscores only and matches the regular expression.
\<close>

lemma validate_username_all_underscores:
  "validate_username ''___'' =
     Inl (ValueError ''Username must contain only alphanumeric characters and underscores'') \<and>
   matches_username_regex ''___''"
  by (simp add: validate_username_def username_alphanumeric_def isalnum_def replace_underscore_def
      matches_username_regex_def regex_class_def)






text \<open>
  A username with a character that is neither alphanumeric nor an underscore is rejected
  by the validator's \<^verbatim>\<open>ValueError\<close>, and the answer to the request has status 500, where
  \<^verbatim>\<open>test_create_user_invalid_username_chars\<close> expects 422.
\<close>

lemma create_user_route_invalid_chars:
  "create_user_route 12 ''user@name!'' sample_user_data [john, jane] =
     (Inl (Validation (ValueError
        ''Username must contain only alphanumeric characters and underscores'')), [john, jane]) \<and>
   status_of (Validation (ValueError
        ''Username must contain only alphanumeric characters and underscores'')) = 500"
  by (simp add: create_user_route_def validate_username_def username_alphanumeric_def isalnum_def
      replace_underscore_def isalnum_char_def)



end
